theory Spec2Isabelle
  imports Main
begin

section \<open>Data model\<close>

text \<open>
  Modelled from the spec: the \<open>Message\<close> class lives in \<open>message.py\<close>, which is not part of
  the sources at hand. The spec describes it as a record with an id, a receipt handle and a
  body; \<open>consumer.py\<close> reads the attributes \<open>MessageId\<close> and \<open>ReceiptHandle\<close>. The spec has
  a message immutable, so a message is a value here; the list of messages of a batch is
  a Python list, which its receiver may change (see \<open>process_message_batch\<close>).
\<close>

record message =
  MessageId :: string
  ReceiptHandle :: string
  Body :: string

text \<open>
  Python exceptions. \<open>except Exception\<close> catches every class derived from \<open>Exception\<close> and
  lets pass the classes derived from \<open>BaseException\<close> only (\<open>KeyboardInterrupt\<close>,
  \<open>SystemExit\<close>, \<open>GeneratorExit\<close>). An exception raised while another one is being
  handled carries that one in its \<open>__context__\<close>.

  Modelled from the spec: \<open>SQSException\<close> is defined in \<open>error.py\<close>, which is not part of the
  sources at hand; the spec has it reach the same exception callback as a handler failure,
  so it is a subclass of \<open>Exception\<close>.
\<close>

datatype exc_class =
    ValueError
  | AttributeError
  | IndexError
  | OverflowError
  | SQSException
  | Exception
  | OtherException string
  | BaseExceptionOnly string

datatype exn = Exn (class_of: exc_class) (args_of: string) (context_of: "exn option")

fun is_Exception :: "exn \<Rightarrow> bool" where
  "is_Exception (Exn (BaseExceptionOnly n) a c) = False"
| "is_Exception (Exn k a c) = True"

text \<open>The keyword arguments of \<open>receive_message\<close>, built by \<open>_sqs_client_params\<close>.\<close>

record receive_params =
  QueueUrl :: string
  AttributeNames :: "string list"
  MessageAttributeNames :: "string list"
  MaxNumberOfMessages :: int
  WaitTimeSeconds :: int
  VisibilityTimeout :: "int option"

text \<open>One entry of the \<open>Entries\<close> argument of \<open>delete_message_batch\<close>.\<close>

record delete_entry =
  entry_Id :: string
  entry_ReceiptHandle :: string

text \<open>A worker thread created by \<open>start_consumer\<close>: \<open>Thread(target=self.start, name=...,
  daemon=...)\<close>. The only target the code ever gives is \<open>self.start\<close>.\<close>

datatype target = Target_start

record thread =
  thread_target :: target
  thread_name :: string
  thread_daemon :: bool

text \<open>Where a live worker stands in \<open>start\<close>: before its first statement, or at the test
  of the \<open>while\<close> loop.\<close>

datatype phase = AtStart | AtLoopTest

text \<open>
  Every call that leaves the consumer core is recorded, in order, at the moment it is
  made: calls of the queue client, of the overridable handler methods, of \<open>time.sleep\<close>
  (argument in milliseconds) and of the thread library.
\<close>

datatype event =
    is_Receive: Receive receive_params
  | is_HandleMessage: HandleMessage message
  | is_HandleMessageBatch: HandleMessageBatch "message list"
  | is_HandleProcessingException: HandleProcessingException message exn
  | is_HandleBatchProcessingException: HandleBatchProcessingException "message list" exn
  | is_DeleteMessage: DeleteMessage string string
  | is_DeleteMessageBatch: DeleteMessageBatch string "delete_entry list"
  | is_Sleep: Sleep int
  | is_ThreadStart: ThreadStart thread
  | is_ThreadJoin: ThreadJoin thread

section \<open>Statements that may raise\<close>

text \<open>
  A Python statement is a function from the state to a result and the state it leaves:
  \<open>Inl e\<close> when the exception \<open>e\<close> propagates, \<open>Inr x\<close> when it completes with \<open>x\<close>.
  Effects made before a raise stay in the state.
\<close>

type_synonym ('a, 's) py = "'s \<Rightarrow> (exn + 'a) \<times> 's"

definition py_return :: "'a \<Rightarrow> ('a, 's) py" where
  "py_return x s = (Inr x, s)"

definition py_raise :: "exn \<Rightarrow> ('a, 's) py" where
  "py_raise e s = (Inl e, s)"

definition py_bind :: "('a, 's) py \<Rightarrow> ('a \<Rightarrow> ('b, 's) py) \<Rightarrow> ('b, 's) py" where
  "py_bind m f s = (case m s of (Inl e, s') \<Rightarrow> (Inl e, s') | (Inr x, s') \<Rightarrow> f x s')"

definition py_then :: "('a, 's) py \<Rightarrow> ('b, 's) py \<Rightarrow> ('b, 's) py" where
  "py_then m k = py_bind m (\<lambda>_. k)"

text \<open>\<open>try: body / except Exception as e: handler e\<close>.\<close>

definition py_except_Exception :: "('a, 's) py \<Rightarrow> (exn \<Rightarrow> ('a, 's) py) \<Rightarrow> ('a, 's) py" where
  "py_except_Exception body handler s =
     (case body s of
        (Inl e, s') \<Rightarrow> if is_Exception e then handler e s' else (Inl e, s')
      | (Inr x, s') \<Rightarrow> (Inr x, s'))"

text \<open>
  \<open>try: body / finally: fin\<close>. The \<open>finally\<close> block runs in every case; when it raises,
  its exception replaces the one in flight and takes it as \<open>__context__\<close>.
\<close>

definition set_context :: "exn \<Rightarrow> exn \<Rightarrow> exn" where
  "set_context e2 e = Exn (class_of e2) (args_of e2) (Some e)"

definition py_finally :: "('a, 's) py \<Rightarrow> (unit, 's) py \<Rightarrow> ('a, 's) py" where
  "py_finally body fin s =
     (case body s of
        (r, s') \<Rightarrow>
          (case fin s' of
             (Inl e2, s'') \<Rightarrow>
               (Inl (case r of Inl e \<Rightarrow> set_context e2 e | Inr _ \<Rightarrow> e2), s'')
           | (Inr _, s'') \<Rightarrow> (r, s'')))"

section \<open>The consumer and its state\<close>

text \<open>
  What is mutable: the attributes \<open>_running\<close> and \<open>_sqs_thread\<close> of the consumer, and the
  world outside it (the queue, whatever the handlers keep), of an arbitrary type \<open>'w\<close>.
  The handler methods receive \<open>self\<close>, so they may change all of it; the queue client
  works on the world only.
\<close>

record 'w self_state =
  running :: bool
  sqs_thread :: "thread option"
  world :: 'w

text \<open>The process: the consumer's state, the worker threads alive, each with the place
  it has reached, and the calls made.\<close>

record 'w pstate =
  self :: "'w self_state"
  live_threads :: "(thread \<times> phase) list"
  trace :: "event list"

text \<open>
  The boto3 SQS client, an external collaborator. A response of \<open>receive_message\<close> is a
  dictionary; only its entry \<open>"Messages"\<close> is read, so the response is that entry, \<open>None\<close>
  when the key is absent.
\<close>

record ('w, 'raw) client =
  sqs_receive_message :: "receive_params \<Rightarrow> ('raw list option, 'w) py"
  sqs_delete_message :: "string \<Rightarrow> string \<Rightarrow> (unit, 'w) py"
  sqs_delete_message_batch :: "string \<Rightarrow> delete_entry list \<Rightarrow> (unit, 'w) py"

text \<open>
  A \<open>Consumer\<close> object: the attributes \<open>__init__\<close> sets and nothing changes later, its
  client, and the four methods a subclass overrides. \<open>handle_message_batch\<close> receives
  the list object that \<open>start\<close> built and may change it, so it runs on the list together
  with the consumer's state and leaves both. \<open>message_parse\<close> stands for
  \<open>Message.parse\<close>, defined in \<open>message.py\<close>, which is not part of the sources at hand:
  it is a parameter here, and may raise. An exception that a method or a client
  operation raises is the value as it leaves that call, with the context Python gave it.
\<close>

record ('w, 'raw) consumer =
  queue_url :: string
  attribute_names :: "string list"
  message_attribute_names :: "string list"
  batch_size :: int
  wait_time_seconds :: int
  visibility_timeout_seconds :: "int option"
  polling_wait_time_ms :: int
  daemon :: bool
  thread_name_prefix :: string
  threaded :: bool
  sqs_client :: "('w, 'raw) client"
  handle_message :: "message \<Rightarrow> (unit, 'w self_state) py"
  handle_message_batch :: "(unit, message list \<times> 'w self_state) py"
  handle_processing_exception :: "message \<Rightarrow> exn \<Rightarrow> (unit, 'w self_state) py"
  handle_batch_processing_exception :: "message list \<Rightarrow> exn \<Rightarrow> (unit, 'w self_state) py"
  message_parse :: "'raw \<Rightarrow> exn + message"

text \<open>The methods as \<open>Consumer\<close> defines them: the handlers do nothing, the exception
  callbacks print the traceback and return.\<close>

record 'w methods =
  m_handle_message :: "message \<Rightarrow> (unit, 'w self_state) py"
  m_handle_message_batch :: "(unit, message list \<times> 'w self_state) py"
  m_handle_processing_exception :: "message \<Rightarrow> exn \<Rightarrow> (unit, 'w self_state) py"
  m_handle_batch_processing_exception :: "message list \<Rightarrow> exn \<Rightarrow> (unit, 'w self_state) py"

definition default_methods :: "'w methods" where
  "default_methods =
     \<lparr> m_handle_message = (\<lambda>m. py_return ()),
       m_handle_message_batch = py_return (),
       m_handle_processing_exception = (\<lambda>m e. py_return ()),
       m_handle_batch_processing_exception = (\<lambda>ms e. py_return ()) \<rparr>"

section \<open>Construction\<close>

record ('w, 'raw) init_args =
  arg_queue_url :: string
  arg_region :: "string option"
  arg_sqs_client :: "('w, 'raw) client option"
  arg_attribute_names :: "string list"
  arg_message_attribute_names :: "string list"
  arg_batch_size :: int
  arg_wait_time_seconds :: int
  arg_visibility_timeout_seconds :: "int option"
  arg_polling_wait_time_ms :: int
  arg_daemon :: bool
  arg_thread_name :: string
  arg_threaded :: bool

text \<open>The test \<open>if not 1 <= batch_size <= 10: raise ValueError(...)\<close>.\<close>

definition check_batch_size :: "int \<Rightarrow> exn + int" where
  "check_batch_size b =
     (if \<not> (1 \<le> b \<and> b \<le> 10)
      then Inl (Exn ValueError ''Batch size should be between 1 and 10, both inclusive'' None)
      else Inr b)"

text \<open>\<open>if region:\<close> holds for a string that is neither \<open>None\<close> nor empty.\<close>

definition truthy :: "string option \<Rightarrow> bool" where
  "truthy r = (case r of None \<Rightarrow> False | Some x \<Rightarrow> x \<noteq> [])"

text \<open>\<open>sqs_client or boto3.client("sqs", region_name=r)\<close>: boto3 is called only when no
  client was passed.\<close>

definition client_or_boto3 ::
  "(string \<Rightarrow> exn + ('w, 'raw) client) \<Rightarrow> ('w, 'raw) client option \<Rightarrow> string \<Rightarrow>
   exn + ('w, 'raw) client" where
  "client_or_boto3 boto3_client cl r = (case cl of Some c \<Rightarrow> Inr c | None \<Rightarrow> boto3_client r)"

definition no_region_message :: string where
  "no_region_message =
     ''Please specify the region parameter or set '' @ replicate 28 CHR '' '' @
     ''AWS_DEFAULT_REGION env variable.''"

text \<open>
  \<open>Consumer.__init__\<close>. \<open>boto3_client\<close> is boto3's client factory, \<open>environ\<close> the value of
  \<open>AWS_DEFAULT_REGION\<close> in \<open>os.environ\<close> (\<open>None\<close> when unset), \<open>ms\<close> the methods of the
  class being instantiated, \<open>w\<close> the world at that moment. The result is the object and
  the state with \<open>_sqs_thread = None\<close> and \<open>_running = False\<close>. The registration of
  \<open>self.stop\<close> with \<open>atexit\<close> changes neither.
\<close>

definition init ::
  "(string \<Rightarrow> exn + ('w, 'raw) client) \<Rightarrow> string option \<Rightarrow> 'w methods \<Rightarrow>
   ('raw \<Rightarrow> exn + message) \<Rightarrow> ('w, 'raw) init_args \<Rightarrow> 'w \<Rightarrow>
   exn + (('w, 'raw) consumer \<times> 'w pstate)" where
  "init boto3_client environ ms parse_fn a w =
     (case check_batch_size (arg_batch_size a) of
        Inl e \<Rightarrow> Inl e
      | Inr b \<Rightarrow>
          (case (if truthy (arg_region a)
                 then client_or_boto3 boto3_client (arg_sqs_client a) (the (arg_region a))
                 else (case environ of
                         Some r \<Rightarrow> client_or_boto3 boto3_client (arg_sqs_client a) r
                       | None \<Rightarrow> Inl (Exn Exception no_region_message None))) of
             Inl e \<Rightarrow> Inl e
           | Inr cl \<Rightarrow>
               Inr (\<lparr> queue_url = arg_queue_url a,
                      attribute_names = arg_attribute_names a,
                      message_attribute_names = arg_message_attribute_names a,
                      batch_size = b,
                      wait_time_seconds = arg_wait_time_seconds a,
                      visibility_timeout_seconds = arg_visibility_timeout_seconds a,
                      polling_wait_time_ms = arg_polling_wait_time_ms a,
                      daemon = arg_daemon a,
                      thread_name_prefix = ''aws_sqs_thread'' @ arg_thread_name a,
                      threaded = arg_threaded a,
                      sqs_client = cl,
                      handle_message = m_handle_message ms,
                      handle_message_batch = m_handle_message_batch ms,
                      handle_processing_exception = m_handle_processing_exception ms,
                      handle_batch_processing_exception =
                        m_handle_batch_processing_exception ms,
                      message_parse = parse_fn \<rparr>,
                    \<lparr> self = \<lparr> running = False, sqs_thread = None, world = w \<rparr>,
                      live_threads = [],
                      trace = [] \<rparr>)))"

section \<open>Calls that leave the core\<close>

definition log :: "event \<Rightarrow> (unit, 'w pstate) py" where
  "log ev s = (Inr (), s\<lparr>trace := trace s @ [ev]\<rparr>)"

text \<open>A handler method runs on the consumer's state.\<close>

definition on_self :: "('a, 'w self_state) py \<Rightarrow> ('a, 'w pstate) py" where
  "on_self m s = (case m (self s) of (r, u) \<Rightarrow> (r, s\<lparr>self := u\<rparr>))"

text \<open>A client operation runs on the world.\<close>

definition on_world :: "('a, 'w) py \<Rightarrow> ('a, 'w pstate) py" where
  "on_world m s =
     (case m (world (self s)) of (r, w) \<Rightarrow> (r, s\<lparr>self := (self s)\<lparr>world := w\<rparr>\<rparr>))"

text \<open>
  \<open>_polling_wait\<close>: \<open>time.sleep(self.polling_wait_time_ms / 1000)\<close>. The division of
  an integer too large for its quotient to be a float raises \<open>OverflowError\<close>, and
  \<open>time.sleep\<close> is not called: the quotient rounds beyond the largest float from
  \<open>1000 * (2 ^ 1024 - 2 ^ 970)\<close> on. \<open>time.sleep\<close> itself raises \<open>ValueError\<close> for a
  negative argument and \<open>OverflowError\<close> for one beyond \<open>2 ^ 63\<close> nanoseconds, which
  9223372036854 milliseconds stay below and 9223372036855 exceed.
\<close>

definition float_overflow_ms :: int where
  "float_overflow_ms = 1000 * (2 ^ 1024 - 2 ^ 970)"

definition max_sleep_ms :: int where
  "max_sleep_ms = 9223372036854"

definition polling_wait :: "('w, 'raw) consumer \<Rightarrow> (unit, 'w pstate) py" where
  "polling_wait c =
     (if float_overflow_ms \<le> polling_wait_time_ms c
      then py_raise (Exn OverflowError ''integer division result too large for a float'' None)
      else py_then (log (Sleep (polling_wait_time_ms c)))
             (if polling_wait_time_ms c < 0
              then py_raise (Exn ValueError ''sleep length must be non-negative'' None)
              else if max_sleep_ms < polling_wait_time_ms c
              then py_raise
                     (Exn OverflowError ''timestamp too large to convert to C _PyTime_t'' None)
              else py_return ()))"

text \<open>The property \<open>_sqs_client_params\<close>.\<close>

definition sqs_client_params :: "('w, 'raw) consumer \<Rightarrow> receive_params" where
  "sqs_client_params c =
     \<lparr> QueueUrl = queue_url c,
       AttributeNames = attribute_names c,
       MessageAttributeNames = message_attribute_names c,
       MaxNumberOfMessages = batch_size c,
       WaitTimeSeconds = wait_time_seconds c,
       VisibilityTimeout = visibility_timeout_seconds c \<rparr>"

section \<open>Dispatch\<close>

text \<open>\<open>_delete_message\<close>. The \<open>SQSException\<close> is raised inside the \<open>except\<close> block, so
  the exception of the client is its \<open>__context__\<close>.\<close>

definition delete_message :: "('w, 'raw) consumer \<Rightarrow> message \<Rightarrow> (unit, 'w pstate) py" where
  "delete_message c m =
     py_except_Exception
       (py_then (log (DeleteMessage (queue_url c) (ReceiptHandle m)))
          (on_world (sqs_delete_message (sqs_client c) (queue_url c) (ReceiptHandle m))))
       (\<lambda>e. py_raise (Exn SQSException ''Failed to delete message'' (Some e)))"

definition entries :: "message list \<Rightarrow> delete_entry list" where
  "entries ms =
     map (\<lambda>m. \<lparr> entry_Id = MessageId m, entry_ReceiptHandle = ReceiptHandle m \<rparr>) ms"

text \<open>\<open>_delete_message_batch\<close>.\<close>

definition delete_message_batch ::
  "('w, 'raw) consumer \<Rightarrow> message list \<Rightarrow> (unit, 'w pstate) py" where
  "delete_message_batch c ms =
     py_except_Exception
       (py_then (log (DeleteMessageBatch (queue_url c) (entries ms)))
          (on_world (sqs_delete_message_batch (sqs_client c) (queue_url c) (entries ms))))
       (\<lambda>e. py_raise (Exn SQSException ''Failed to delete message batch'' (Some e)))"

text \<open>\<open>_process_message\<close>.\<close>

definition process_message :: "('w, 'raw) consumer \<Rightarrow> message \<Rightarrow> (unit, 'w pstate) py" where
  "process_message c m =
     py_finally
       (py_except_Exception
          (py_then
             (py_then (log (HandleMessage m)) (on_self (handle_message c m)))
             (delete_message c m))
          (\<lambda>e. py_then (log (HandleProcessingException m e))
                 (on_self (handle_processing_exception c m e))))
       (polling_wait c)"

text \<open>
  \<open>_process_message_batch\<close>. Its argument \<open>messages\<close> is one list object, handed to the
  handler, read afterwards by \<open>_delete_message_batch\<close> for the entries, and handed to the
  exception callback: what the handler did to the list is what the later statements
  see. The statements of the method therefore run on the list together with the process
  state.
\<close>

definition on_process :: "('a, 's) py \<Rightarrow> ('a, 'l \<times> 's) py" where
  "on_process m = (\<lambda>(l, s). case m s of (r, s') \<Rightarrow> (r, (l, s')))"

definition read_list :: "('l \<Rightarrow> ('a, 'l \<times> 's) py) \<Rightarrow> ('a, 'l \<times> 's) py" where
  "read_list f = (\<lambda>(l, s). f l (l, s))"

definition call_handle_message_batch ::
  "('w, 'raw) consumer \<Rightarrow> (unit, message list \<times> 'w pstate) py" where
  "call_handle_message_batch c =
     (\<lambda>(l, s). case handle_message_batch c (l, self s) of
                  (r, (l', u)) \<Rightarrow> (r, (l', s\<lparr>self := u\<rparr>)))"

definition process_message_batch ::
  "('w, 'raw) consumer \<Rightarrow> message list \<Rightarrow> (unit, 'w pstate) py" where
  "process_message_batch c ms s =
     (case py_finally
             (py_except_Exception
                (py_then
                   (py_then (read_list (\<lambda>l. on_process (log (HandleMessageBatch l))))
                      (call_handle_message_batch c))
                   (read_list (\<lambda>l. on_process (delete_message_batch c l))))
                (\<lambda>e. read_list (\<lambda>l.
                       on_process
                         (py_then (log (HandleBatchProcessingException l e))
                            (on_self (handle_batch_processing_exception c l e))))))
             (on_process (polling_wait c)) (ms, s) of
        (r, (l, s')) \<Rightarrow> (r, s'))"

section \<open>The consumer loop\<close>

text \<open>The list comprehension \<open>[Message.parse(d) for d in response["Messages"]]\<close>: the
  first record that fails to parse raises.\<close>

fun parse_all :: "('raw \<Rightarrow> exn + message) \<Rightarrow> 'raw list \<Rightarrow> exn + message list" where
  "parse_all p [] = Inr []"
| "parse_all p (r # rs) =
     (case p r of
        Inl e \<Rightarrow> Inl e
      | Inr m \<Rightarrow> (case parse_all p rs of Inl e \<Rightarrow> Inl e | Inr ms \<Rightarrow> Inr (m # ms)))"

text \<open>\<open>response.get("Messages", [])\<close>.\<close>

definition get_Messages :: "'raw list option \<Rightarrow> 'raw list" where
  "get_Messages response = (case response of None \<Rightarrow> [] | Some raws \<Rightarrow> raws)"

text \<open>\<open>messages[0]\<close>.\<close>

definition first_message :: "message list \<Rightarrow> (message, 's) py" where
  "first_message ms =
     (case ms of
        [] \<Rightarrow> py_raise (Exn IndexError ''list index out of range'' None)
      | m # _ \<Rightarrow> py_return m)"

text \<open>The body of the \<open>while\<close> loop of \<open>start\<close>. It completes (\<open>Inr\<close>) when control goes
  back to the test of the loop, by \<open>continue\<close> or at the end of the body.\<close>

definition iteration :: "('w, 'raw) consumer \<Rightarrow> (unit, 'w pstate) py" where
  "iteration c =
     py_bind
       (py_then (log (Receive (sqs_client_params c)))
          (on_world (sqs_receive_message (sqs_client c) (sqs_client_params c))))
       (\<lambda>response.
          if get_Messages response = []
          then polling_wait c
          else (case parse_all (message_parse c) (get_Messages response) of
                  Inl e \<Rightarrow> py_raise e
                | Inr messages \<Rightarrow>
                    if batch_size c = 1
                    then py_bind (first_message messages) (process_message c)
                    else process_message_batch c messages))"

text \<open>
  \<open>while self._running: ...\<close>. The loop may run forever, so it takes fuel, one unit for
  each iteration: \<open>None\<close> says the fuel ran out with the loop still running.
\<close>

fun run_loop ::
  "nat \<Rightarrow> ('w, 'raw) consumer \<Rightarrow> 'w pstate \<Rightarrow> ((exn + unit) \<times> 'w pstate) option" where
  "run_loop 0 c s = (if \<not> running (self s) then Some (Inr (), s) else None)"
| "run_loop (Suc k) c s =
     (if \<not> running (self s) then Some (Inr (), s)
      else (case iteration c s of
              (Inl e, s') \<Rightarrow> Some (Inl e, s')
            | (Inr _, s') \<Rightarrow> run_loop k c s'))"

text \<open>\<open>start\<close>.\<close>

definition start ::
  "nat \<Rightarrow> ('w, 'raw) consumer \<Rightarrow> 'w pstate \<Rightarrow> ((exn + unit) \<times> 'w pstate) option" where
  "start n c s = run_loop n c (s\<lparr>self := (self s)\<lparr>running := True\<rparr>\<rparr>)"

section \<open>Lifecycle\<close>

text \<open>
  \<open>Thread.join\<close> returns when the worker has ended: the caller waits, and the worker is
  no longer alive afterwards.
\<close>

definition thread_join :: "thread \<Rightarrow> (unit, 'w pstate) py" where
  "thread_join t =
     py_then (log (ThreadJoin t))
       (\<lambda>s. (Inr (), s\<lparr>live_threads := filter (\<lambda>p. fst p \<noteq> t) (live_threads s)\<rparr>))"

text \<open>
  \<open>stop\<close>. With \<open>_sqs_thread\<close> still \<open>None\<close>, \<open>self._sqs_thread.join()\<close> raises
  \<open>AttributeError: 'NoneType' object has no attribute 'join'\<close> (the quotation marks of
  the message are left out here).
\<close>

definition stop :: "('w, 'raw) consumer \<Rightarrow> (unit, 'w pstate) py" where
  "stop c =
     py_then (\<lambda>s. (Inr (), s\<lparr>self := (self s)\<lparr>running := False\<rparr>\<rparr>))
       (if \<not> daemon c
        then (\<lambda>s. case sqs_thread (self s) of
                     None \<Rightarrow>
                       py_raise (Exn AttributeError
                         ''NoneType object has no attribute join'' None) s
                   | Some t \<Rightarrow> thread_join t s)
        else py_return ())"

text \<open>
  \<open>Thread(target=self.start, name=..., daemon=...)\<close> followed by \<open>.start()\<close>: the new
  worker is alive from then on, about to enter \<open>start\<close>, and runs it beside its caller
  and beside the other workers (see \<open>worker_step\<close>).
\<close>

definition thread_start :: "thread \<Rightarrow> (unit, 'w pstate) py" where
  "thread_start t =
     py_then (log (ThreadStart t))
       (\<lambda>s. (Inr (), s\<lparr>live_threads := live_threads s @ [(t, AtStart)]\<rparr>))"

text \<open>\<open>start_consumer\<close>; \<open>uuid\<close> is the value of \<open>str(uuid4())\<close>.\<close>

definition start_consumer ::
  "nat \<Rightarrow> string \<Rightarrow> ('w, 'raw) consumer \<Rightarrow> 'w pstate \<Rightarrow>
   ((exn + unit) \<times> 'w pstate) option" where
  "start_consumer n uuid c s =
     (if \<not> threaded c then start n c s
      else (let t = \<lparr> thread_target = Target_start,
                      thread_name = thread_name_prefix c @ uuid,
                      thread_daemon = daemon c \<rparr>
            in Some (thread_start t (s\<lparr>self := (self s)\<lparr>sqs_thread := Some t\<rparr>\<rparr>))))"

section \<open>Workers\<close>

text \<open>
  What a live worker does when the scheduler lets it run. Its target is \<open>start\<close>, so its
  first step is \<open>self._running = True\<close>, and every later step is one round of the
  \<open>while\<close> loop: the test of the flag and, when it is set, one \<open>iteration\<close>. The worker
  ends, and is alive no longer, when the test fails or when the iteration lets an
  exception out. All workers act on the one state of the consumer and on the one world.
  A step is taken whole: the interleavings described are those at the borders of
  iterations, a part of those the threads of the source have.
\<close>

definition thread_ends :: "thread \<Rightarrow> 'w pstate \<Rightarrow> 'w pstate" where
  "thread_ends t s = s\<lparr>live_threads := filter (\<lambda>p. fst p \<noteq> t) (live_threads s)\<rparr>"

definition enter_loop :: "thread \<Rightarrow> (thread \<times> phase) list \<Rightarrow> (thread \<times> phase) list" where
  "enter_loop t ws = map (\<lambda>p. if fst p = t then (t, AtLoopTest) else p) ws"

definition worker_step :: "('w, 'raw) consumer \<Rightarrow> thread \<Rightarrow> 'w pstate \<Rightarrow> 'w pstate" where
  "worker_step c t s =
     (case thread_target t of
        Target_start \<Rightarrow>
          (case map_of (live_threads s) t of
             None \<Rightarrow> s
           | Some AtStart \<Rightarrow>
               s\<lparr>self := (self s)\<lparr>running := True\<rparr>,
                 live_threads := enter_loop t (live_threads s)\<rparr>
           | Some AtLoopTest \<Rightarrow>
               if \<not> running (self s) then thread_ends t s
               else (case iteration c s of
                       (Inl e, s') \<Rightarrow> thread_ends t s'
                     | (Inr _, s') \<Rightarrow> s')))"

text \<open>A schedule names the worker that runs at each step.\<close>

definition run_schedule ::
  "('w, 'raw) consumer \<Rightarrow> thread list \<Rightarrow> 'w pstate \<Rightarrow> 'w pstate" where
  "run_schedule c sched s = fold (worker_step c) sched s"

section \<open>Statements that leave a part of the state alone\<close>

text \<open>
  \<open>commutes g m\<close>: the statement \<open>m\<close> neither reads nor writes the part of the state that
  \<open>g\<close> sets. It is used with \<open>g\<close> setting the table of live threads, which no statement
  of the consumer loop touches.
\<close>

definition commutes :: "('s \<Rightarrow> 's) \<Rightarrow> ('a, 's) py \<Rightarrow> bool" where
  "commutes g m = (\<forall>s. m (g s) = (fst (m s), g (snd (m s))))"

section \<open>Predicates on the trace\<close>

text \<open>
  \<open>only_about url m ev\<close>: the call \<open>ev\<close>, when it hands a message to a handler or to an
  exception callback, or deletes one, concerns the message \<open>m\<close> alone; it is no call of
  the batch path.
\<close>

fun only_about :: "string \<Rightarrow> message \<Rightarrow> event \<Rightarrow> bool" where
  "only_about url m (HandleMessage m') = (m' = m)"
| "only_about url m (HandleProcessingException m' e) = (m' = m)"
| "only_about url m (DeleteMessage u rh) = (u = url \<and> rh = ReceiptHandle m)"
| "only_about url m (HandleMessageBatch ms) = False"
| "only_about url m (HandleBatchProcessingException ms e) = False"
| "only_about url m (DeleteMessageBatch u es) = False"
| "only_about url m ev = True"


section \<open>Concrete consumers\<close>

text \<open>
  Small instances on which the theorems below are exercised: two messages, a client
  that always returns the same response and whose delete operations return or raise as
  asked, handler methods that return or raise as asked, and a consumer built from them.
  Raw records are messages already; the world is trivial, except for a client that
  counts its receive calls.
\<close>

definition demo_message :: message where
  "demo_message = \<lparr> MessageId = ''id-1'', ReceiptHandle = ''rh-1'', Body = ''first'' \<rparr>"

definition demo_message2 :: message where
  "demo_message2 = \<lparr> MessageId = ''id-2'', ReceiptHandle = ''rh-2'', Body = ''second'' \<rparr>"

definition outcome :: "exn option \<Rightarrow> (unit, 's) py" where
  "outcome r = (case r of None \<Rightarrow> py_return () | Some e \<Rightarrow> py_raise e)"

definition demo_client :: "message list \<Rightarrow> exn option \<Rightarrow> (unit, message) client" where
  "demo_client msgs del =
     \<lparr> sqs_receive_message = (\<lambda>p. py_return (Some msgs)),
       sqs_delete_message = (\<lambda>u rh. outcome del),
       sqs_delete_message_batch = (\<lambda>u es. outcome del) \<rparr>"

definition failing_client :: "exn \<Rightarrow> (unit, message) client" where
  "failing_client e =
     \<lparr> sqs_receive_message = (\<lambda>p. py_raise e),
       sqs_delete_message = (\<lambda>u rh. py_return ()),
       sqs_delete_message_batch = (\<lambda>u es. py_return ()) \<rparr>"

definition demo_methods :: "exn option \<Rightarrow> exn option \<Rightarrow> 'w methods" where
  "demo_methods h cb =
     \<lparr> m_handle_message = (\<lambda>m. outcome h),
       m_handle_message_batch = outcome h,
       m_handle_processing_exception = (\<lambda>m e. outcome cb),
       m_handle_batch_processing_exception = (\<lambda>ms e. outcome cb) \<rparr>"

definition demo_consumer ::
  "int \<Rightarrow> bool \<Rightarrow> bool \<Rightarrow> ('w, message) client \<Rightarrow> 'w methods \<Rightarrow>
   ('w, message) consumer" where
  "demo_consumer b d t cl ms =
     \<lparr> queue_url = ''https://queue'',
       attribute_names = [],
       message_attribute_names = [],
       batch_size = b,
       wait_time_seconds = 1,
       visibility_timeout_seconds = None,
       polling_wait_time_ms = 0,
       daemon = d,
       thread_name_prefix = ''aws_sqs_threadconsumer'',
       threaded = t,
       sqs_client = cl,
       handle_message = m_handle_message ms,
       handle_message_batch = m_handle_message_batch ms,
       handle_processing_exception = m_handle_processing_exception ms,
       handle_batch_processing_exception = m_handle_batch_processing_exception ms,
       message_parse = Inr \<rparr>"

definition demo_state :: "unit pstate" where
  "demo_state =
     \<lparr> self = \<lparr> running = False, sqs_thread = None, world = () \<rparr>,
       live_threads = [],
       trace = [] \<rparr>"

definition demo_args ::
  "int \<Rightarrow> bool \<Rightarrow> bool \<Rightarrow> (unit, message) client \<Rightarrow> (unit, message) init_args" where
  "demo_args b d t cl =
     \<lparr> arg_queue_url = ''https://queue'',
       arg_region = Some ''eu-west-1'',
       arg_sqs_client = Some cl,
       arg_attribute_names = [],
       arg_message_attribute_names = [],
       arg_batch_size = b,
       arg_wait_time_seconds = 1,
       arg_visibility_timeout_seconds = None,
       arg_polling_wait_time_ms = 0,
       arg_daemon = d,
       arg_thread_name = ''consumer'',
       arg_threaded = t \<rparr>"

definition no_boto3 :: "string \<Rightarrow> exn + (unit, message) client" where
  "no_boto3 r = Inl (Exn (OtherException ''NoCredentialsError'') [] None)"

definition key_error :: exn where
  "key_error = Exn (OtherException ''KeyError'') ''body'' None"

definition client_error :: exn where
  "client_error = Exn (OtherException ''ClientError'') ''AccessDenied'' None"

definition demo_running :: "unit pstate" where
  "demo_running = demo_state\<lparr>self := (self demo_state)\<lparr>running := True\<rparr>\<rparr>"

text \<open>Handlers that ask the consumer to stop and then raise.\<close>

definition stopping_methods :: "exn \<Rightarrow> 'w methods" where
  "stopping_methods e =
     \<lparr> m_handle_message = (\<lambda>m u. (Inl e, u\<lparr>running := False\<rparr>)),
       m_handle_message_batch = (\<lambda>(l, u). (Inl e, (l, u\<lparr>running := False\<rparr>))),
       m_handle_processing_exception = (\<lambda>m e. py_return ()),
       m_handle_batch_processing_exception = (\<lambda>ms e. py_return ()) \<rparr>"

text \<open>A batch handler that takes the last message off the list it was given, and
  returns.\<close>

definition popping_methods :: "'w methods" where
  "popping_methods =
     \<lparr> m_handle_message = (\<lambda>m. py_return ()),
       m_handle_message_batch = (\<lambda>(l, u). (Inr (), (butlast l, u))),
       m_handle_processing_exception = (\<lambda>m e. py_return ()),
       m_handle_batch_processing_exception = (\<lambda>ms e. py_return ()) \<rparr>"

text \<open>A client whose first receive call returns one message and whose later ones raise;
  the world is the number of receive calls made.\<close>

definition once_client :: "exn \<Rightarrow> (nat, message) client" where
  "once_client e =
     \<lparr> sqs_receive_message =
         (\<lambda>p w. if w = 0 then (Inr (Some [demo_message]), Suc w) else (Inl e, Suc w)),
       sqs_delete_message = (\<lambda>u rh. py_return ()),
       sqs_delete_message_batch = (\<lambda>u es. py_return ()) \<rparr>"

definition once_running :: "nat pstate" where
  "once_running =
     \<lparr> self = \<lparr> running = True, sqs_thread = None, world = 0 \<rparr>,
       live_threads = [],
       trace = [] \<rparr>"

text \<open>A client whose world is the list of the receipt handles it was asked to delete.\<close>

definition recording_client :: "message list \<Rightarrow> (string list, message) client" where
  "recording_client msgs =
     \<lparr> sqs_receive_message = (\<lambda>p. py_return (Some msgs)),
       sqs_delete_message = (\<lambda>u rh w. (Inr (), w @ [rh])),
       sqs_delete_message_batch = (\<lambda>u es w. (Inr (), w @ map entry_ReceiptHandle es)) \<rparr>"

definition recording_state :: "string list pstate" where
  "recording_state =
     \<lparr> self = \<lparr> running = False, sqs_thread = None, world = [] \<rparr>,
       live_threads = [],
       trace = [] \<rparr>"

definition demo_params :: receive_params where
  "demo_params =
     \<lparr> QueueUrl = ''https://queue'', AttributeNames = [], MessageAttributeNames = [],
       MaxNumberOfMessages = 1, WaitTimeSeconds = 1, VisibilityTimeout = None \<rparr>"

definition demo_thread :: "string \<Rightarrow> thread" where
  "demo_thread uuid =
     \<lparr> thread_target = Target_start,
       thread_name = ''aws_sqs_threadconsumer'' @ uuid,
       thread_daemon = True \<rparr>"

definition demo_one_worker :: "unit pstate" where
  "demo_one_worker =
     \<lparr> self = \<lparr> running = False, sqs_thread = Some (demo_thread ''uuid-1''), world = () \<rparr>,
       live_threads = [(demo_thread ''uuid-1'', AtStart)],
       trace = [ThreadStart (demo_thread ''uuid-1'')] \<rparr>"

definition demo_two_workers :: "unit pstate" where
  "demo_two_workers =
     \<lparr> self = \<lparr> running = False, sqs_thread = Some (demo_thread ''uuid-2''), world = () \<rparr>,
       live_threads = [(demo_thread ''uuid-1'', AtStart), (demo_thread ''uuid-2'', AtStart)],
       trace = [ThreadStart (demo_thread ''uuid-1''), ThreadStart (demo_thread ''uuid-2'')] \<rparr>"

text \<open>Both workers in the loop, and the same after each of them has polled once.\<close>

definition demo_two_looping :: "unit pstate" where
  "demo_two_looping =
     \<lparr> self = \<lparr> running = True, sqs_thread = Some (demo_thread ''uuid-2''), world = () \<rparr>,
       live_threads =
         [(demo_thread ''uuid-1'', AtLoopTest), (demo_thread ''uuid-2'', AtLoopTest)],
       trace = [ThreadStart (demo_thread ''uuid-1''), ThreadStart (demo_thread ''uuid-2'')] \<rparr>"

definition demo_two_polled :: "unit pstate" where
  "demo_two_polled =
     \<lparr> self = \<lparr> running = True, sqs_thread = Some (demo_thread ''uuid-2''), world = () \<rparr>,
       live_threads =
         [(demo_thread ''uuid-1'', AtLoopTest), (demo_thread ''uuid-2'', AtLoopTest)],
       trace = [ThreadStart (demo_thread ''uuid-1''), ThreadStart (demo_thread ''uuid-2''),
                Receive demo_params, Sleep 0, Receive demo_params, Sleep 0] \<rparr>"

section \<open>Unfolding rules\<close>

lemmas py_defs = py_return_def py_raise_def py_bind_def py_then_def py_except_Exception_def
  py_finally_def log_def on_self_def on_world_def on_process_def read_list_def
  call_handle_message_batch_def

lemmas dispatch_defs = iteration_def process_message_def process_message_batch_def
  delete_message_def delete_message_batch_def polling_wait_def get_Messages_def
  first_message_def

lemmas demo_defs = demo_message_def demo_message2_def outcome_def demo_client_def
  failing_client_def demo_methods_def demo_consumer_def demo_state_def demo_args_def
  no_boto3_def key_error_def client_error_def sqs_client_params_def entries_def
  demo_running_def stopping_methods_def demo_thread_def demo_one_worker_def
  demo_two_workers_def popping_methods_def once_client_def once_running_def
  demo_params_def demo_two_looping_def demo_two_polled_def recording_client_def
  recording_state_def


lemma parse_all_Inr: "parse_all Inr xs = Inr xs"
  by (induction xs) simp_all

lemma parse_all_nonempty: "parse_all p raws = Inr (m # ms) \<Longrightarrow> raws \<noteq> []"
  by (cases raws) simp_all

lemma parse_all_map: "parse_all p raws = Inr ms \<Longrightarrow> map p raws = map Inr ms"
  by (induction raws arbitrary: ms) (auto split: sum.splits)

section \<open>Results on construction\<close>

text \<open>
  Claim C4. For every integer batch size from 1 to 10 the batch-size check of
  \<open>__init__\<close> does not raise, and construction then yields a consumer with that batch size
  unless the later steps of \<open>__init__\<close> fail for a reason of their own (no region given and
  none in the environment, or boto3 failing to create a client when none was passed);
  with a client passed and a region available it always succeeds. For every batch size
  outside that range construction raises the \<open>ValueError\<close> of the check and yields no
  consumer.
\<close>

theorem init_batch_size:
  fixes a :: "('w, 'raw) init_args"
  shows
  "(1 \<le> arg_batch_size a \<and> arg_batch_size a \<le> 10 \<longrightarrow>
      check_batch_size (arg_batch_size a) = Inr (arg_batch_size a) \<and>
      ((\<exists>c s. init boto3_client environ ms p a w = Inr (c, s) \<and> batch_size c = arg_batch_size a)
       \<or> (\<not> truthy (arg_region a) \<and> environ = None \<and>
           init boto3_client environ ms p a w = Inl (Exn Exception no_region_message None))
       \<or> (arg_sqs_client a = None \<and>
           (\<exists>r e. boto3_client r = Inl e \<and> init boto3_client environ ms p a w = Inl e))) \<and>
      (arg_sqs_client a \<noteq> None \<and> (truthy (arg_region a) \<or> environ \<noteq> None) \<longrightarrow>
         (\<exists>c s. init boto3_client environ ms p a w = Inr (c, s) \<and>
            batch_size c = arg_batch_size a)))
   \<and> (\<not> (1 \<le> arg_batch_size a \<and> arg_batch_size a \<le> 10) \<longrightarrow>
      init boto3_client environ ms p a w =
        Inl (Exn ValueError ''Batch size should be between 1 and 10, both inclusive'' None))"
  by (auto simp: init_def check_batch_size_def client_or_boto3_def
      split: sum.splits option.splits)

theorem init_batch_size_witness:
  "(\<exists>c s. init no_boto3 None default_methods Inr
             (demo_args 10 True True (demo_client [] None)) () = Inr (c, s) \<and>
           batch_size c = 10)
   \<and> init no_boto3 None default_methods Inr (demo_args 11 True True (demo_client [] None)) () =
       Inl (Exn ValueError ''Batch size should be between 1 and 10, both inclusive'' None)
   \<and> init no_boto3 None default_methods Inr (demo_args 0 True True (demo_client [] None)) () =
       Inl (Exn ValueError ''Batch size should be between 1 and 10, both inclusive'' None)"
  using init_batch_size [of "demo_args 10 True True (demo_client [] None)"
                            no_boto3 None default_methods Inr "()"]
        init_batch_size [of "demo_args 11 True True (demo_client [] None)"
                            no_boto3 None default_methods Inr "()"]
        init_batch_size [of "demo_args 0 True True (demo_client [] None)"
                            no_boto3 None default_methods Inr "()"]
  by (simp add: demo_args_def truthy_def)

section \<open>The single-message path\<close>

text \<open>
  Claim C1. With batch size 1, in an iteration whose receive call returns exactly one
  message, \<open>handle_message\<close> is called exactly once, with that message; when it returns
  without raising, the client's \<open>delete_message\<close> is called exactly once, with the queue
  URL and that message's receipt handle; \<open>handle_message_batch\<close> is not called. The calls
  are made, not only recorded: the state the iteration leaves is the one the handler
  left with the world the client's delete left, or, when that delete raised an
  \<open>Exception\<close>, the state the exception callback left when started from there.
\<close>

theorem single_dispatch:
  fixes c :: "('w, 'raw) consumer" and s :: "'w pstate"
  assumes bs: "batch_size c = 1"
      and rcv: "sqs_receive_message (sqs_client c) (sqs_client_params c) (world (self s)) =
                  (Inr (Some [raw]), w1)"
      and prs: "message_parse c raw = Inr m"
  shows "\<exists>evs. trace (snd (iteration c s)) = trace s @ evs
          \<and> filter is_HandleMessage evs = [HandleMessage m]
          \<and> filter is_HandleMessageBatch evs = []
          \<and> (fst (handle_message c m ((self s)\<lparr>world := w1\<rparr>)) = Inr () \<longrightarrow>
               filter is_DeleteMessage evs =
                 [DeleteMessage (queue_url c) (ReceiptHandle m)])
          \<and> (handle_message c m ((self s)\<lparr>world := w1\<rparr>) = (Inr (), u1)
             \<and> sqs_delete_message (sqs_client c) (queue_url c) (ReceiptHandle m) (world u1) =
                 (Inr (), w2) \<longrightarrow>
               self (snd (iteration c s)) = u1\<lparr>world := w2\<rparr>
             \<and> filter is_HandleProcessingException evs = [])
          \<and> (handle_message c m ((self s)\<lparr>world := w1\<rparr>) = (Inr (), u1)
             \<and> sqs_delete_message (sqs_client c) (queue_url c) (ReceiptHandle m) (world u1) =
                 (Inl e, w2)
             \<and> is_Exception e
             \<and> handle_processing_exception c m
                  (Exn SQSException ''Failed to delete message'' (Some e))
                  (u1\<lparr>world := w2\<rparr>) = (r3, u3) \<longrightarrow>
               self (snd (iteration c s)) = u3)"
  using assms
  by (auto simp: dispatch_defs py_defs split: prod.splits sum.splits if_splits)

theorem single_dispatch_witness:
  "batch_size (demo_consumer 1 True True (recording_client [demo_message])
       (demo_methods None None)) = 1
   \<and> handle_message (demo_consumer 1 True True (recording_client [demo_message])
         (demo_methods None None)) demo_message (self recording_state) =
       (Inr (), self recording_state)
   \<and> sqs_delete_message (recording_client [demo_message]) ''https://queue'' ''rh-1'' [] =
       (Inr (), [''rh-1''])
   \<and> (\<exists>evs. trace (snd (iteration (demo_consumer 1 True True (recording_client [demo_message])
                 (demo_methods None None)) recording_state)) = trace recording_state @ evs
          \<and> filter is_HandleMessage evs = [HandleMessage demo_message]
          \<and> filter is_HandleMessageBatch evs = []
          \<and> filter is_DeleteMessage evs = [DeleteMessage ''https://queue'' ''rh-1'']
          \<and> filter is_HandleProcessingException evs = [])
   \<and> world (self (snd (iteration (demo_consumer 1 True True (recording_client [demo_message])
                 (demo_methods None None)) recording_state))) = [''rh-1'']
   \<and> is_Exception client_error
   \<and> self (snd (iteration (demo_consumer 1 True True
                 (demo_client [demo_message] (Some client_error))
                 (demo_methods None None)) demo_state)) = self demo_state"
  using single_dispatch [of "demo_consumer 1 True True (recording_client [demo_message])
                               (demo_methods None None)"
                            recording_state demo_message "[]" demo_message
                            "self recording_state" "[''rh-1'']" client_error "Inr ()"
                            "self recording_state"]
        single_dispatch [of "demo_consumer 1 True True
                               (demo_client [demo_message] (Some client_error))
                               (demo_methods None None)"
                            demo_state demo_message "()" demo_message
                            "self demo_state" "()" client_error "Inr ()" "self demo_state"]
  by (simp add: demo_defs py_defs)






text \<open>
  Claim C10. With batch size 1, in an iteration whose receive call returns more than one
  message, \<open>handle_message\<close> is called exactly once, with the first message; when it
  returns, the client's \<open>delete_message\<close> is called exactly once, with the first
  message's receipt handle; and every call to a handler, to an exception callback or to
  a delete operation in that iteration concerns the first message alone, none of them the
  batch path. The state the iteration leaves is the one these calls on the first message
  leave: nothing else has acted on the world.
\<close>

theorem first_only:
  fixes c :: "('w, 'raw) consumer" and s :: "'w pstate"
  assumes bs: "batch_size c = 1"
      and rcv: "sqs_receive_message (sqs_client c) (sqs_client_params c) (world (self s)) =
                  (Inr (Some raws), w1)"
      and prs: "parse_all (message_parse c) raws = Inr (m # m' # ms)"
  shows "\<exists>evs. trace (snd (iteration c s)) = trace s @ evs
          \<and> list_all (only_about (queue_url c) m) evs
          \<and> filter is_HandleMessage evs = [HandleMessage m]
          \<and> (fst (handle_message c m ((self s)\<lparr>world := w1\<rparr>)) = Inr () \<longrightarrow>
               filter is_DeleteMessage evs =
                 [DeleteMessage (queue_url c) (ReceiptHandle m)])
          \<and> (handle_message c m ((self s)\<lparr>world := w1\<rparr>) = (Inr (), u1)
             \<and> sqs_delete_message (sqs_client c) (queue_url c) (ReceiptHandle m) (world u1) =
                 (Inr (), w2) \<longrightarrow>
               self (snd (iteration c s)) = u1\<lparr>world := w2\<rparr>
             \<and> filter is_HandleProcessingException evs = [])
          \<and> (handle_message c m ((self s)\<lparr>world := w1\<rparr>) = (Inr (), u1)
             \<and> sqs_delete_message (sqs_client c) (queue_url c) (ReceiptHandle m) (world u1) =
                 (Inl e, w2)
             \<and> is_Exception e
             \<and> handle_processing_exception c m
                  (Exn SQSException ''Failed to delete message'' (Some e))
                  (u1\<lparr>world := w2\<rparr>) = (r3, u3) \<longrightarrow>
               self (snd (iteration c s)) = u3)
          \<and> (handle_message c m ((self s)\<lparr>world := w1\<rparr>) = (Inl e, u1) \<longrightarrow>
               filter is_DeleteMessage evs = []
             \<and> (\<not> is_Exception e \<longrightarrow> self (snd (iteration c s)) = u1)
             \<and> (is_Exception e \<and> handle_processing_exception c m e u1 = (r3, u3) \<longrightarrow>
                  self (snd (iteration c s)) = u3))"
proof -
  from prs have ne: "raws \<noteq> []" by (rule parse_all_nonempty)
  show ?thesis
    using bs rcv prs ne
    by (auto simp: dispatch_defs py_defs split: prod.splits sum.splits if_splits)
qed

theorem first_only_witness:
  "batch_size (demo_consumer 1 True True (recording_client [demo_message, demo_message2])
       (demo_methods None None)) = 1
   \<and> handle_message
        (demo_consumer 1 True True (recording_client [demo_message, demo_message2])
           (demo_methods None None)) demo_message (self recording_state) =
       (Inr (), self recording_state)
   \<and> sqs_delete_message (recording_client [demo_message, demo_message2])
        ''https://queue'' ''rh-1'' [] = (Inr (), [''rh-1''])
   \<and> (\<exists>evs. trace (snd (iteration
                 (demo_consumer 1 True True (recording_client [demo_message, demo_message2])
                    (demo_methods None None)) recording_state)) = trace recording_state @ evs
          \<and> list_all (only_about ''https://queue'' demo_message) evs
          \<and> filter is_HandleMessage evs = [HandleMessage demo_message]
          \<and> filter is_DeleteMessage evs = [DeleteMessage ''https://queue'' ''rh-1'']
          \<and> filter is_HandleProcessingException evs = [])
   \<and> world (self (snd (iteration
                 (demo_consumer 1 True True (recording_client [demo_message, demo_message2])
                    (demo_methods None None)) recording_state))) = [''rh-1'']
   \<and> is_Exception client_error
   \<and> self (snd (iteration (demo_consumer 1 True True
                 (demo_client [demo_message, demo_message2] (Some client_error))
                 (demo_methods None None)) demo_state)) = self demo_state
   \<and> is_Exception key_error
   \<and> (\<exists>evs. trace (snd (iteration
                 (demo_consumer 1 True True (recording_client [demo_message, demo_message2])
                    (demo_methods (Some key_error) None)) recording_state)) =
               trace recording_state @ evs
          \<and> filter is_DeleteMessage evs = [])
   \<and> world (self (snd (iteration
                 (demo_consumer 1 True True (recording_client [demo_message, demo_message2])
                    (demo_methods (Some key_error) None)) recording_state))) = []"
  using first_only [of "demo_consumer 1 True True
                          (recording_client [demo_message, demo_message2])
                          (demo_methods None None)"
                       recording_state "[demo_message, demo_message2]" "[]"
                       demo_message demo_message2 "[]"
                       "self recording_state" "[''rh-1'']" client_error "Inr ()"
                       "self recording_state"]
        first_only [of "demo_consumer 1 True True
                          (demo_client [demo_message, demo_message2] (Some client_error))
                          (demo_methods None None)"
                       demo_state "[demo_message, demo_message2]" "()"
                       demo_message demo_message2 "[]"
                       "self demo_state" "()" client_error "Inr ()" "self demo_state"]
        first_only [of "demo_consumer 1 True True
                          (recording_client [demo_message, demo_message2])
                          (demo_methods (Some key_error) None)"
                       recording_state "[demo_message, demo_message2]" "[]"
                       demo_message demo_message2 "[]"
                       "self recording_state" "[]" key_error "Inr ()"
                       "self recording_state"]
  by (simp add: demo_defs py_defs)

section \<open>The batch path\<close>

text \<open>
  Claim C3, as stated, fails for a handler that changes the list it is given: the
  entries of the delete call are built from that same list after the handler has
  returned. Two messages are received, the handler takes the second off the list, and
  \<open>delete_message_batch\<close> is called with the entry of the first alone.
\<close>

theorem batch_handler_shortens_list:
  "iteration (demo_consumer 3 True True (recording_client [demo_message, demo_message2])
       popping_methods) recording_state =
     (Inr (),
      recording_state
        \<lparr>self := (self recording_state)\<lparr>world := [''rh-1'']\<rparr>,
         trace :=
           [Receive (demo_params\<lparr>MaxNumberOfMessages := 3\<rparr>),
            HandleMessageBatch [demo_message, demo_message2],
            DeleteMessageBatch ''https://queue''
              [\<lparr> entry_Id = ''id-1'', entry_ReceiptHandle = ''rh-1'' \<rparr>],
            Sleep 0]\<rparr>)"
  by (simp add: dispatch_defs demo_defs py_defs float_overflow_ms_def max_sleep_ms_def)

text \<open>
  Claim C3, amended. With a batch size above 1, in an iteration whose receive call
  returns a non-empty list of messages, \<open>handle_message_batch\<close> is called exactly once,
  with the list of all of them in order. When it returns, the client's
  \<open>delete_message_batch\<close> is called exactly once, with the queue URL and the pair of id
  and receipt handle of every message of the list as the handler left it: of all the
  messages received when the handler did not change the list. When that call returns
  too, the batch exception callback is not called; when it raises an \<open>Exception\<close>,
  \<open>handle_batch_processing_exception\<close> is called exactly once, with the list as the
  handler left it and the \<open>SQSException\<close> raised in its place. When the handler raises,
  nothing is deleted, and for an \<open>Exception\<close> the callback is called exactly once with
  the list as the handler left it and that exception. The state the iteration leaves is
  the one these calls leave.
\<close>

theorem batch_dispatch:
  fixes c :: "('w, 'raw) consumer" and s :: "'w pstate"
  assumes bs: "1 < batch_size c"
      and rcv: "sqs_receive_message (sqs_client c) (sqs_client_params c) (world (self s)) =
                  (Inr (Some raws), w1)"
      and ne: "raws \<noteq> []"
      and prs: "parse_all (message_parse c) raws = Inr ms"
  shows "map (message_parse c) raws = map Inr ms \<and>
    (\<exists>evs. trace (snd (iteration c s)) = trace s @ evs
      \<and> filter is_HandleMessageBatch evs = [HandleMessageBatch ms]
      \<and> (handle_message_batch c (ms, (self s)\<lparr>world := w1\<rparr>) = (Inr (), (ms', u1)) \<longrightarrow>
           filter is_DeleteMessageBatch evs =
             [DeleteMessageBatch (queue_url c)
                (map (\<lambda>m. \<lparr> entry_Id = MessageId m,
                             entry_ReceiptHandle = ReceiptHandle m \<rparr>) ms')]
         \<and> (sqs_delete_message_batch (sqs_client c) (queue_url c) (entries ms') (world u1) =
              (Inr (), w2) \<longrightarrow>
              filter is_HandleBatchProcessingException evs = []
            \<and> self (snd (iteration c s)) = u1\<lparr>world := w2\<rparr>)
         \<and> (sqs_delete_message_batch (sqs_client c) (queue_url c) (entries ms') (world u1) =
              (Inl e, w2) \<and> is_Exception e \<longrightarrow>
              filter is_HandleBatchProcessingException evs =
                [HandleBatchProcessingException ms'
                   (Exn SQSException ''Failed to delete message batch'' (Some e))]
            \<and> (handle_batch_processing_exception c ms'
                  (Exn SQSException ''Failed to delete message batch'' (Some e))
                  (u1\<lparr>world := w2\<rparr>) = (r3, u3) \<longrightarrow>
                 self (snd (iteration c s)) = u3)))
      \<and> (handle_message_batch c (ms, (self s)\<lparr>world := w1\<rparr>) = (Inl e, (ms', u1)) \<longrightarrow>
           filter is_DeleteMessageBatch evs = []
         \<and> (\<not> is_Exception e \<longrightarrow> self (snd (iteration c s)) = u1)
         \<and> (is_Exception e \<longrightarrow>
              filter is_HandleBatchProcessingException evs =
                [HandleBatchProcessingException ms' e]
            \<and> (handle_batch_processing_exception c ms' e u1 = (r3, u3) \<longrightarrow>
                 self (snd (iteration c s)) = u3))))"
proof
  show "map (message_parse c) raws = map Inr ms"
    using prs by (rule parse_all_map)
next
  show "\<exists>evs. trace (snd (iteration c s)) = trace s @ evs
      \<and> filter is_HandleMessageBatch evs = [HandleMessageBatch ms]
      \<and> (handle_message_batch c (ms, (self s)\<lparr>world := w1\<rparr>) = (Inr (), (ms', u1)) \<longrightarrow>
           filter is_DeleteMessageBatch evs =
             [DeleteMessageBatch (queue_url c)
                (map (\<lambda>m. \<lparr> entry_Id = MessageId m,
                             entry_ReceiptHandle = ReceiptHandle m \<rparr>) ms')]
         \<and> (sqs_delete_message_batch (sqs_client c) (queue_url c) (entries ms') (world u1) =
              (Inr (), w2) \<longrightarrow>
              filter is_HandleBatchProcessingException evs = []
            \<and> self (snd (iteration c s)) = u1\<lparr>world := w2\<rparr>)
         \<and> (sqs_delete_message_batch (sqs_client c) (queue_url c) (entries ms') (world u1) =
              (Inl e, w2) \<and> is_Exception e \<longrightarrow>
              filter is_HandleBatchProcessingException evs =
                [HandleBatchProcessingException ms'
                   (Exn SQSException ''Failed to delete message batch'' (Some e))]
            \<and> (handle_batch_processing_exception c ms'
                  (Exn SQSException ''Failed to delete message batch'' (Some e))
                  (u1\<lparr>world := w2\<rparr>) = (r3, u3) \<longrightarrow>
                 self (snd (iteration c s)) = u3)))
      \<and> (handle_message_batch c (ms, (self s)\<lparr>world := w1\<rparr>) = (Inl e, (ms', u1)) \<longrightarrow>
           filter is_DeleteMessageBatch evs = []
         \<and> (\<not> is_Exception e \<longrightarrow> self (snd (iteration c s)) = u1)
         \<and> (is_Exception e \<longrightarrow>
              filter is_HandleBatchProcessingException evs =
                [HandleBatchProcessingException ms' e]
            \<and> (handle_batch_processing_exception c ms' e u1 = (r3, u3) \<longrightarrow>
                 self (snd (iteration c s)) = u3)))"
    using bs rcv ne prs
    by (auto simp: dispatch_defs py_defs entries_def split: prod.splits sum.splits if_splits)
qed


theorem batch_dispatch_witness:
  "1 < batch_size (demo_consumer 3 True True (recording_client [demo_message, demo_message2])
          (demo_methods None None))
   \<and> handle_message_batch
        (demo_consumer 3 True True (recording_client [demo_message, demo_message2])
           (demo_methods None None))
        ([demo_message, demo_message2], self recording_state) =
       (Inr (), ([demo_message, demo_message2], self recording_state))
   \<and> (\<exists>evs. trace (snd (iteration
                 (demo_consumer 3 True True (recording_client [demo_message, demo_message2])
                    (demo_methods None None)) recording_state)) = trace recording_state @ evs
          \<and> filter is_HandleMessageBatch evs =
               [HandleMessageBatch [demo_message, demo_message2]]
          \<and> filter is_DeleteMessageBatch evs =
               [DeleteMessageBatch ''https://queue''
                  [\<lparr> entry_Id = ''id-1'', entry_ReceiptHandle = ''rh-1'' \<rparr>,
                   \<lparr> entry_Id = ''id-2'', entry_ReceiptHandle = ''rh-2'' \<rparr>]]
          \<and> filter is_HandleBatchProcessingException evs = [])
   \<and> world (self (snd (iteration
                 (demo_consumer 3 True True (recording_client [demo_message, demo_message2])
                    (demo_methods None None)) recording_state))) = [''rh-1'', ''rh-2'']
   \<and> handle_message_batch
        (demo_consumer 3 True True (recording_client [demo_message, demo_message2])
           popping_methods)
        ([demo_message, demo_message2], self recording_state) =
       (Inr (), ([demo_message], self recording_state))
   \<and> (\<exists>evs. trace (snd (iteration
                 (demo_consumer 3 True True (recording_client [demo_message, demo_message2])
                    popping_methods) recording_state)) = trace recording_state @ evs
          \<and> filter is_HandleMessageBatch evs =
               [HandleMessageBatch [demo_message, demo_message2]]
          \<and> filter is_DeleteMessageBatch evs =
               [DeleteMessageBatch ''https://queue''
                  [\<lparr> entry_Id = ''id-1'', entry_ReceiptHandle = ''rh-1'' \<rparr>]]
          \<and> filter is_HandleBatchProcessingException evs = [])
   \<and> is_Exception client_error
   \<and> (\<exists>evs. trace (snd (iteration
                 (demo_consumer 3 True True
                    (demo_client [demo_message, demo_message2] (Some client_error))
                    (demo_methods None None)) demo_state)) = trace demo_state @ evs
          \<and> filter is_HandleMessageBatch evs =
               [HandleMessageBatch [demo_message, demo_message2]]
          \<and> filter is_DeleteMessageBatch evs =
               [DeleteMessageBatch ''https://queue''
                  [\<lparr> entry_Id = ''id-1'', entry_ReceiptHandle = ''rh-1'' \<rparr>,
                   \<lparr> entry_Id = ''id-2'', entry_ReceiptHandle = ''rh-2'' \<rparr>]]
          \<and> filter is_HandleBatchProcessingException evs =
               [HandleBatchProcessingException [demo_message, demo_message2]
                  (Exn SQSException ''Failed to delete message batch'' (Some client_error))])
   \<and> is_Exception key_error
   \<and> (\<exists>evs. trace (snd (iteration
                 (demo_consumer 3 True True (recording_client [demo_message, demo_message2])
                    (demo_methods (Some key_error) None)) recording_state)) =
               trace recording_state @ evs
          \<and> filter is_HandleMessageBatch evs =
               [HandleMessageBatch [demo_message, demo_message2]]
          \<and> filter is_DeleteMessageBatch evs = []
          \<and> filter is_HandleBatchProcessingException evs =
               [HandleBatchProcessingException [demo_message, demo_message2] key_error])
   \<and> world (self (snd (iteration
                 (demo_consumer 3 True True (recording_client [demo_message, demo_message2])
                    (demo_methods (Some key_error) None)) recording_state))) = []"
  using batch_dispatch [of "demo_consumer 3 True True
                              (recording_client [demo_message, demo_message2])
                              (demo_methods None None)"
                           recording_state "[demo_message, demo_message2]" "[]"
                           "[demo_message, demo_message2]" "[demo_message, demo_message2]"
                           "self recording_state" "[''rh-1'', ''rh-2'']" key_error
                           "Inr ()" "self recording_state"]
        batch_dispatch [of "demo_consumer 3 True True
                              (recording_client [demo_message, demo_message2])
                              popping_methods"
                           recording_state "[demo_message, demo_message2]" "[]"
                           "[demo_message, demo_message2]" "[demo_message]"
                           "self recording_state" "[''rh-1'']" key_error
                           "Inr ()" "self recording_state"]
        batch_dispatch [of "demo_consumer 3 True True
                              (demo_client [demo_message, demo_message2] (Some client_error))
                              (demo_methods None None)"
                           demo_state "[demo_message, demo_message2]" "()"
                           "[demo_message, demo_message2]" "[demo_message, demo_message2]"
                           "self demo_state" "()" client_error "Inr ()" "self demo_state"]
        batch_dispatch [of "demo_consumer 3 True True
                              (recording_client [demo_message, demo_message2])
                              (demo_methods (Some key_error) None)"
                           recording_state "[demo_message, demo_message2]" "[]"
                           "[demo_message, demo_message2]" "[demo_message, demo_message2]"
                           "self recording_state" "[]" key_error
                           "Inr ()" "self recording_state"]
  by (simp add: demo_defs py_defs)

section \<open>Failures of the queue client and of the callbacks\<close>




text \<open>
  Claim C6. An exception raised by the client's \<open>receive_message\<close>, of whatever class,
  leaves the iteration as it is, neither caught nor replaced; a running loop, and
  \<open>start\<close> when its first receive call raises, end with that exception. The only call
  made in that iteration is the receive call itself: no handler, no exception callback,
  no delete, no wait.
\<close>

theorem receive_failure_propagates:
  fixes c :: "('w, 'raw) consumer" and s :: "'w pstate"
  assumes rcv: "sqs_receive_message (sqs_client c) (sqs_client_params c) (world (self s)) =
                  (Inl e, w1)"
  shows "iteration c s =
           (Inl e, s\<lparr>self := (self s)\<lparr>world := w1\<rparr>,
                     trace := trace s @ [Receive (sqs_client_params c)]\<rparr>)
       \<and> (running (self s) \<longrightarrow>
            run_loop (Suc n) c s =
              Some (Inl e, s\<lparr>self := (self s)\<lparr>world := w1\<rparr>,
                            trace := trace s @ [Receive (sqs_client_params c)]\<rparr>))
       \<and> start (Suc n) c s =
           Some (Inl e, s\<lparr>self := (self s)\<lparr>running := True, world := w1\<rparr>,
                         trace := trace s @ [Receive (sqs_client_params c)]\<rparr>)"
  using rcv
  by (auto simp: start_def dispatch_defs py_defs split: prod.splits sum.splits if_splits)


theorem receive_failure_propagates_witness:
  "sqs_receive_message (failing_client client_error)
     (sqs_client_params (demo_consumer 1 True True (failing_client client_error)
        (demo_methods None None))) () = (Inl client_error, ())
   \<and> running (self demo_running)
   \<and> iteration (demo_consumer 1 True True (failing_client client_error)
        (demo_methods None None)) demo_running =
       (Inl client_error,
        demo_running\<lparr>trace :=
          [Receive (sqs_client_params (demo_consumer 1 True True
             (failing_client client_error) (demo_methods None None)))]\<rparr>)
   \<and> run_loop (Suc 0) (demo_consumer 1 True True (failing_client client_error)
        (demo_methods None None)) demo_running =
       Some (Inl client_error,
        demo_running\<lparr>trace :=
          [Receive (sqs_client_params (demo_consumer 1 True True
             (failing_client client_error) (demo_methods None None)))]\<rparr>)
   \<and> start (Suc 0) (demo_consumer 1 True True (failing_client client_error)
        (demo_methods None None)) demo_state =
       Some (Inl client_error,
        demo_running\<lparr>trace :=
          [Receive (sqs_client_params (demo_consumer 1 True True
             (failing_client client_error) (demo_methods None None)))]\<rparr>)"
  using receive_failure_propagates
          [of "demo_consumer 1 True True (failing_client client_error)
                 (demo_methods None None)" demo_running client_error "()" 0]
        receive_failure_propagates
          [of "demo_consumer 1 True True (failing_client client_error)
                 (demo_methods None None)" demo_state client_error "()" 0]
  by (simp add: demo_defs py_defs)









section \<open>Stopping\<close>

text \<open>What \<open>stop\<close> does in each configuration: with a daemon worker it only clears the
  flag, and doing so twice is the same as once; without the daemon flag it joins the
  worker on record, and raises when there is none.\<close>

lemma stop_daemon:
  "daemon c \<Longrightarrow> stop c s = (Inr (), s\<lparr>self := (self s)\<lparr>running := False\<rparr>\<rparr>)"
  by (simp add: stop_def py_defs)

lemma stop_daemon_twice:
  "daemon c \<Longrightarrow> stop c (snd (stop c s)) = stop c s"
  by (simp add: stop_def py_defs)

lemma stop_joins:
  "\<not> daemon c \<Longrightarrow> sqs_thread (self s) = Some t \<Longrightarrow>
   stop c s = (Inr (), s\<lparr>self := (self s)\<lparr>running := False\<rparr>,
                          live_threads := filter (\<lambda>p. fst p \<noteq> t) (live_threads s),
                          trace := trace s @ [ThreadJoin t]\<rparr>)"
  by (simp add: stop_def thread_join_def py_defs)

lemma stop_no_worker:
  "\<not> daemon c \<Longrightarrow> sqs_thread (self s) = None \<Longrightarrow>
   stop c s = (Inl (Exn AttributeError ''NoneType object has no attribute join'' None),
               s\<lparr>self := (self s)\<lparr>running := False\<rparr>\<rparr>)"
  by (simp add: stop_def py_defs)

text \<open>
  Claim C8, where the code departs from it. A consumer built with \<open>daemon=False\<close> and
  \<open>threaded=False\<close>, on which \<open>start_consumer\<close> was never called, has \<open>_sqs_thread = None\<close>;
  \<open>stop\<close> clears the flag and then raises \<open>AttributeError\<close> from
  \<open>self._sqs_thread.join()\<close>, where the claim has a no-op without error.
\<close>

theorem stop_without_worker:
  "init no_boto3 None default_methods Inr (demo_args 1 False False (demo_client [] None)) () =
     Inr (demo_consumer 1 False False (demo_client [] None) default_methods, demo_state)
   \<and> stop (demo_consumer 1 False False (demo_client [] None) default_methods) demo_state =
       (Inl (Exn AttributeError ''NoneType object has no attribute join'' None), demo_state)"
  by (simp add: init_def check_batch_size_def truthy_def client_or_boto3_def stop_def
      demo_defs py_defs)

section \<open>What the workers run\<close>

text \<open>No statement of the consumer loop reads or writes the table of live threads.\<close>

lemma commutes_return: "commutes g (py_return x)"
  by (simp add: commutes_def py_return_def)

lemma commutes_raise: "commutes g (py_raise e)"
  by (simp add: commutes_def py_raise_def)

lemma commutes_bind:
  "commutes g m \<Longrightarrow> (\<And>x. commutes g (f x)) \<Longrightarrow> commutes g (py_bind m f)"
  by (auto simp: commutes_def py_bind_def split: prod.splits sum.splits)

lemma commutes_then: "commutes g m \<Longrightarrow> commutes g k \<Longrightarrow> commutes g (py_then m k)"
  by (simp add: py_then_def commutes_bind)

lemma commutes_except:
  "commutes g b \<Longrightarrow> (\<And>e. commutes g (h e)) \<Longrightarrow> commutes g (py_except_Exception b h)"
  by (auto simp: commutes_def py_except_Exception_def split: prod.splits sum.splits)

lemma commutes_finally:
  "commutes g b \<Longrightarrow> commutes g f \<Longrightarrow> commutes g (py_finally b f)"
  by (auto simp: commutes_def py_finally_def split: prod.splits sum.splits)

lemma commutes_if:
  "(P \<Longrightarrow> commutes g a) \<Longrightarrow> (\<not> P \<Longrightarrow> commutes g b) \<Longrightarrow> commutes g (if P then a else b)"
  by simp

lemma commutes_log: "commutes (\<lambda>s. s\<lparr>live_threads := ws\<rparr>) (log ev)"
  by (simp add: commutes_def log_def)

lemma commutes_on_self: "commutes (\<lambda>s. s\<lparr>live_threads := ws\<rparr>) (on_self m)"
  by (simp add: commutes_def on_self_def split: prod.splits)

lemma commutes_on_world: "commutes (\<lambda>s. s\<lparr>live_threads := ws\<rparr>) (on_world m)"
  by (simp add: commutes_def on_world_def split: prod.splits)

lemma commutes_on_process: "commutes g m \<Longrightarrow> commutes (apsnd g) (on_process m)"
  by (auto simp: commutes_def on_process_def split: prod.splits)

lemma commutes_read_list:
  "(\<And>l. commutes (apsnd g) (f l)) \<Longrightarrow> commutes (apsnd g) (read_list f)"
  by (auto simp: commutes_def read_list_def split: prod.splits)

lemma commutes_call_handle_message_batch:
  "commutes (apsnd (\<lambda>s. s\<lparr>live_threads := ws\<rparr>)) (call_handle_message_batch c)"
  by (auto simp: commutes_def call_handle_message_batch_def split: prod.splits)

lemma commutes_polling_wait: "commutes (\<lambda>s. s\<lparr>live_threads := ws\<rparr>) (polling_wait c)"
  unfolding polling_wait_def
  by (intro commutes_if commutes_then commutes_raise commutes_return commutes_log)

lemma commutes_delete_message:
  "commutes (\<lambda>s. s\<lparr>live_threads := ws\<rparr>) (delete_message c m)"
  unfolding delete_message_def
  by (intro commutes_except commutes_then commutes_raise commutes_log commutes_on_world)

lemma commutes_delete_message_batch:
  "commutes (\<lambda>s. s\<lparr>live_threads := ws\<rparr>) (delete_message_batch c ms)"
  unfolding delete_message_batch_def
  by (intro commutes_except commutes_then commutes_raise commutes_log commutes_on_world)

lemma commutes_process_message:
  "commutes (\<lambda>s. s\<lparr>live_threads := ws\<rparr>) (process_message c m)"
  unfolding process_message_def
  by (intro commutes_finally commutes_except commutes_then commutes_log commutes_on_self
      commutes_delete_message commutes_polling_wait)

lemma commutes_process_message_batch:
  "commutes (\<lambda>s. s\<lparr>live_threads := ws\<rparr>) (process_message_batch c ms)"
proof -
  let ?g = "\<lambda>s::'a pstate. s\<lparr>live_threads := ws\<rparr>"
  let ?body = "py_finally
             (py_except_Exception
                (py_then
                   (py_then (read_list (\<lambda>l. on_process (log (HandleMessageBatch l))))
                      (call_handle_message_batch c))
                   (read_list (\<lambda>l. on_process (delete_message_batch c l))))
                (\<lambda>e. read_list (\<lambda>l.
                       on_process
                         (py_then (log (HandleBatchProcessingException l e))
                            (on_self (handle_batch_processing_exception c l e))))))
             (on_process (polling_wait c))"
  have "commutes (apsnd ?g) ?body"
    by (intro commutes_finally commutes_except commutes_then commutes_read_list
        commutes_on_process commutes_log commutes_on_self commutes_delete_message_batch
        commutes_call_handle_message_batch commutes_polling_wait)
  then have "\<And>s. ?body (ms, ?g s) = (fst (?body (ms, s)), apsnd ?g (snd (?body (ms, s))))"
    by (simp add: commutes_def)
  then show ?thesis
    by (simp add: commutes_def process_message_batch_def split: prod.splits)
qed

lemma commutes_iteration: "commutes (\<lambda>s. s\<lparr>live_threads := ws\<rparr>) (iteration c)"
  unfolding iteration_def first_message_def
  by (intro commutes_bind commutes_then commutes_log commutes_on_world commutes_if
      commutes_polling_wait)
     (auto intro!: commutes_raise commutes_bind commutes_return commutes_process_message
        commutes_process_message_batch split: sum.splits list.splits)

lemma iteration_other_threads:
  "iteration c (s\<lparr>live_threads := ws\<rparr>) =
     (fst (iteration c s), (snd (iteration c s))\<lparr>live_threads := ws\<rparr>)"
  using commutes_iteration [of ws c] by (simp add: commutes_def)

lemma iteration_live_threads: "live_threads (snd (iteration c s)) = live_threads s"
proof -
  have "iteration c (s\<lparr>live_threads := live_threads s\<rparr>) =
          (fst (iteration c s), (snd (iteration c s))\<lparr>live_threads := live_threads s\<rparr>)"
    by (rule iteration_other_threads)
  then have "snd (iteration c s) = (snd (iteration c s))\<lparr>live_threads := live_threads s\<rparr>"
    by (metis pstate.update_convs(2) pstate.surjective snd_conv pstate.select_convs(2) prod.collapse)
  then show ?thesis
    by (metis pstate.select_convs(2) pstate.surjective pstate.update_convs(2))
qed


text \<open>So the loop run by a worker is the loop of \<open>start\<close>: a worker left to run alone
  does what \<open>start\<close> does, and then is alive no longer.\<close>

lemma run_loop_other_threads:
  "run_loop n c s = Some (r, s') \<Longrightarrow>
   run_loop n c (s\<lparr>live_threads := ws\<rparr>) = Some (r, s'\<lparr>live_threads := ws\<rparr>)"
proof (induction n arbitrary: s)
  case 0
  then show ?case by (auto split: if_splits)
next
  case (Suc n)
  show ?case
  proof (cases "running (self s)")
    case False
    with Suc.prems show ?thesis by auto
  next
    case True
    obtain r1 s1 where it: "iteration c s = (r1, s1)" by (cases "iteration c s")
    then have it': "iteration c (s\<lparr>live_threads := ws\<rparr>) = (r1, s1\<lparr>live_threads := ws\<rparr>)"
      by (simp add: iteration_other_threads)
    show ?thesis
    proof (cases r1)
      case (Inl e)
      with Suc.prems True it it' show ?thesis by auto
    next
      case (Inr u)
      with Suc.prems True it have "run_loop n c s1 = Some (r, s')" by simp
      then have "run_loop n c (s1\<lparr>live_threads := ws\<rparr>) = Some (r, s'\<lparr>live_threads := ws\<rparr>)"
        by (rule Suc.IH)
      with True it' Inr show ?thesis by simp
    qed
  qed
qed

lemma run_loop_live_threads:
  "run_loop n c s = Some (r, s') \<Longrightarrow> live_threads s' = live_threads s"
proof (induction n arbitrary: s)
  case 0
  then show ?case by (simp split: if_splits)
next
  case (Suc n)
  show ?case
  proof (cases "running (self s)")
    case False
    with Suc.prems show ?thesis by simp
  next
    case True
    obtain r1 s1 where it: "iteration c s = (r1, s1)" by (cases "iteration c s")
    have lt: "live_threads s1 = live_threads s"
      using iteration_live_threads [of c s] it by simp
    show ?thesis
    proof (cases r1)
      case (Inl e)
      with Suc.prems True it lt show ?thesis by auto
    next
      case (Inr u)
      with Suc.prems True it have "run_loop n c s1 = Some (r, s')" by simp
      then have "live_threads s' = live_threads s1" by (rule Suc.IH)
      with lt show ?thesis by simp
    qed
  qed
qed

lemma start_live_threads:
  "start n c s = Some (r, s') \<Longrightarrow> live_threads s' = live_threads s"
  unfolding start_def using run_loop_live_threads [of n c _ r s'] by fastforce

lemma map_of_ended: "map_of (filter (\<lambda>p. fst p \<noteq> t) ws) t = None"
  by (induction ws) auto

lemma worker_step_ended:
  "map_of (live_threads s) t = None \<Longrightarrow> worker_step c t s = s"
  by (simp add: worker_step_def split: target.splits)

lemma run_schedule_ended:
  "map_of (live_threads s) t = None \<Longrightarrow> run_schedule c (replicate k t) s = s"
  by (induction k) (simp_all add: run_schedule_def worker_step_ended)

lemma run_schedule_step:
  "run_schedule c (replicate (Suc k) t) s = run_schedule c (replicate k t) (worker_step c t s)"
  by (simp add: run_schedule_def)

lemma worker_runs_loop:
  "map_of (live_threads s) t = Some AtLoopTest \<Longrightarrow> run_loop k c s = Some (r, s') \<Longrightarrow>
   run_schedule c (replicate (Suc k) t) s = thread_ends t s'"
proof (induction k arbitrary: s)
  case 0
  then show ?case
    by (auto simp: run_schedule_def worker_step_def split: if_splits target.splits)
next
  case (Suc k)
  have step: "run_schedule c (replicate (Suc (Suc k)) t) s =
                run_schedule c (replicate (Suc k) t) (worker_step c t s)"
    by (rule run_schedule_step)
  show ?case
  proof (cases "running (self s)")
    case False
    with Suc.prems have eq: "s' = s" by simp
    from False Suc.prems(1) have ws: "worker_step c t s = thread_ends t s"
      by (simp add: worker_step_def split: target.splits)
    have "map_of (live_threads (thread_ends t s)) t = None"
      by (simp add: thread_ends_def map_of_ended)
    then have "run_schedule c (replicate (Suc k) t) (thread_ends t s) = thread_ends t s"
      by (rule run_schedule_ended)
    then show ?thesis
      unfolding step ws eq .
  next
    case True
    obtain r1 s1 where it: "iteration c s = (r1, s1)" by (cases "iteration c s")
    have lt: "live_threads s1 = live_threads s"
      using iteration_live_threads [of c s] it by simp
    show ?thesis
    proof (cases r1)
      case (Inl e)
      with Suc.prems True it have eq: "s' = s1" by simp
      from True Suc.prems(1) it Inl have ws: "worker_step c t s = thread_ends t s1"
        by (simp add: worker_step_def split: target.splits)
      have "map_of (live_threads (thread_ends t s1)) t = None"
        by (simp add: thread_ends_def map_of_ended)
      then have "run_schedule c (replicate (Suc k) t) (thread_ends t s1) = thread_ends t s1"
        by (rule run_schedule_ended)
      then show ?thesis
        unfolding step ws eq .
    next
      case (Inr u)
      with Suc.prems True it have rl: "run_loop k c s1 = Some (r, s')" by simp
      from True Suc.prems(1) it Inr have ws: "worker_step c t s = s1"
        by (simp add: worker_step_def split: target.splits)
      from Suc.prems lt have "map_of (live_threads s1) t = Some AtLoopTest" by simp
      then have "run_schedule c (replicate (Suc k) t) s1 = thread_ends t s'"
        using rl by (rule Suc.IH)
      then show ?thesis
        unfolding step ws .
    qed
  qed
qed

lemma map_of_new_thread:
  "t \<notin> fst ` set ws \<Longrightarrow> map_of (ws @ [(t, p)]) t = Some p"
  by (induction ws) auto

lemma enter_loop_new_thread:
  "t \<notin> fst ` set ws \<Longrightarrow> enter_loop t (ws @ [(t, AtStart)]) = ws @ [(t, AtLoopTest)]"
  by (induction ws) (auto simp: enter_loop_def)

lemma filter_other_threads:
  "t \<notin> fst ` set ws \<Longrightarrow> filter (\<lambda>p. fst p \<noteq> t) ws = ws"
  by (induction ws) auto

lemma worker_runs_start:
  assumes fresh: "t \<notin> fst ` set (live_threads s)"
      and st: "start k c (s\<lparr>live_threads := live_threads s @ [(t, AtStart)]\<rparr>) = Some (r, s2)"
  shows "run_schedule c (replicate (Suc (Suc k)) t)
           (s\<lparr>live_threads := live_threads s @ [(t, AtStart)]\<rparr>) =
         s2\<lparr>live_threads := live_threads s\<rparr>"
proof -
  let ?s1 = "s\<lparr>live_threads := live_threads s @ [(t, AtStart)]\<rparr>"
  let ?a = "?s1\<lparr>self := (self ?s1)\<lparr>running := True\<rparr>\<rparr>"
  let ?s1a = "?a\<lparr>live_threads := live_threads s @ [(t, AtLoopTest)]\<rparr>"
  have first: "worker_step c t ?s1 = ?s1a"
    using fresh
    by (simp add: worker_step_def map_of_new_thread enter_loop_new_thread
        del: map_of_append split: target.splits)
  have "run_loop k c ?a = Some (r, s2)"
    using st unfolding start_def .
  then have rl: "run_loop k c ?s1a =
                   Some (r, s2\<lparr>live_threads := live_threads s @ [(t, AtLoopTest)]\<rparr>)"
    by (rule run_loop_other_threads)
  have ph: "map_of (live_threads ?s1a) t = Some AtLoopTest"
    using fresh by (simp add: map_of_new_thread del: map_of_append)
  have "run_schedule c (replicate (Suc k) t) ?s1a =
          thread_ends t (s2\<lparr>live_threads := live_threads s @ [(t, AtLoopTest)]\<rparr>)"
    using ph rl by (rule worker_runs_loop)
  also have "\<dots> = s2\<lparr>live_threads := live_threads s\<rparr>"
    using fresh by (simp add: thread_ends_def filter_other_threads)
  finally have "run_schedule c (replicate (Suc k) t) ?s1a =
                  s2\<lparr>live_threads := live_threads s\<rparr>" .
  then show ?thesis
    unfolding run_schedule_step [of c "Suc k" t ?s1] first .
qed

text \<open>
  Claim C9, as stated, fails: a second call of \<open>start_consumer\<close> on a threaded consumer
  whose first worker is alive starts a second worker beside it. Both enter the loop and
  both poll: each makes its own receive call on the one client.
\<close>

theorem second_worker:
  "start_consumer 0 ''uuid-1''
     (demo_consumer 1 True True (demo_client [] None) default_methods) demo_state =
     Some (Inr (), demo_one_worker)
   \<and> start_consumer 0 ''uuid-2''
     (demo_consumer 1 True True (demo_client [] None) default_methods) demo_one_worker =
     Some (Inr (), demo_two_workers)
   \<and> length (live_threads demo_one_worker) = 1
   \<and> length (live_threads demo_two_workers) = 2
   \<and> run_schedule (demo_consumer 1 True True (demo_client [] None) default_methods)
       [demo_thread ''uuid-1'', demo_thread ''uuid-2''] demo_two_workers = demo_two_looping
   \<and> run_schedule (demo_consumer 1 True True (demo_client [] None) default_methods)
       [demo_thread ''uuid-1'', demo_thread ''uuid-2''] demo_two_looping = demo_two_polled
   \<and> map snd (live_threads demo_two_polled) = [AtLoopTest, AtLoopTest]"
  by (simp add: start_consumer_def thread_start_def run_schedule_def worker_step_def
      enter_loop_def thread_ends_def dispatch_defs demo_defs py_defs Let_def
      default_methods_def max_sleep_ms_def float_overflow_ms_def)

text \<open>
  Claim C9, amended. Every call of \<open>start_consumer\<close> on a threaded consumer starts exactly
  one new worker, with target \<open>self.start\<close>, named by the prefix and the uuid and with
  the consumer's daemon flag, adds it to the workers already alive, whatever they are,
  and records it as \<open>_sqs_thread\<close>; there is no test that would keep a call made while
  a worker is alive from adding another. The new worker runs the consumer loop: its
  first step sets \<open>_running\<close>, and left to run alone it does exactly what \<open>start\<close> does
  from the state the call left, after which it is alive no longer. On a consumer that is
  not threaded the call starts no worker: it is \<open>start\<close> run by the caller, which leaves
  the workers alive as they were.
\<close>

theorem start_consumer_workers:
  fixes c :: "('w, 'raw) consumer" and s :: "'w pstate"
  assumes t: "t = \<lparr> thread_target = Target_start,
                     thread_name = thread_name_prefix c @ uuid,
                     thread_daemon = daemon c \<rparr>"
      and s1: "s1 = s\<lparr>self := (self s)\<lparr>sqs_thread := Some t\<rparr>,
                      live_threads := live_threads s @ [(t, AtStart)],
                      trace := trace s @ [ThreadStart t]\<rparr>"
  shows
  "(threaded c \<longrightarrow>
      start_consumer n uuid c s = Some (Inr (), s1)
    \<and> (t \<notin> fst ` set (live_threads s) \<longrightarrow>
         worker_step c t s1 =
           s1\<lparr>self := (self s1)\<lparr>running := True\<rparr>,
              live_threads := live_threads s @ [(t, AtLoopTest)]\<rparr>
       \<and> (start k c s1 = Some (r, s2) \<longrightarrow>
            run_schedule c (replicate (Suc (Suc k)) t) s1 =
              s2\<lparr>live_threads := live_threads s\<rparr>)))
   \<and> (\<not> threaded c \<longrightarrow>
      start_consumer n uuid c s = start n c s
      \<and> (start n c s = Some (r', s') \<longrightarrow> live_threads s' = live_threads s))"
proof -
  let ?s0 = "s\<lparr>self := (self s)\<lparr>sqs_thread := Some t\<rparr>, trace := trace s @ [ThreadStart t]\<rparr>"
  have s1': "s1 = ?s0\<lparr>live_threads := live_threads ?s0 @ [(t, AtStart)]\<rparr>"
    using s1 by simp
  have a: "threaded c \<Longrightarrow> start_consumer n uuid c s = Some (Inr (), s1)"
    using t s1 by (simp add: start_consumer_def thread_start_def py_defs Let_def)
  have b: "t \<notin> fst ` set (live_threads s) \<Longrightarrow>
           worker_step c t s1 =
             s1\<lparr>self := (self s1)\<lparr>running := True\<rparr>,
                live_threads := live_threads s @ [(t, AtLoopTest)]\<rparr>"
    using s1
    by (simp add: worker_step_def map_of_new_thread enter_loop_new_thread
        del: map_of_append split: target.splits)
  have c: "t \<notin> fst ` set (live_threads s) \<Longrightarrow> start k c s1 = Some (r, s2) \<Longrightarrow>
           run_schedule c (replicate (Suc (Suc k)) t) s1 = s2\<lparr>live_threads := live_threads s\<rparr>"
    using worker_runs_start [of t ?s0 k c r s2] s1' by simp
  have d: "start n c s = Some (r', s') \<Longrightarrow> live_threads s' = live_threads s"
    by (rule start_live_threads)
  show ?thesis
    using a b c d by (simp add: start_consumer_def)
qed


theorem start_consumer_workers_witness:
  "threaded (demo_consumer 1 True True (failing_client client_error) default_methods)
   \<and> start_consumer 0 ''uuid-1''
       (demo_consumer 1 True True (failing_client client_error) default_methods) demo_state =
       Some (Inr (), demo_one_worker)
   \<and> demo_thread ''uuid-1'' \<notin> fst ` set (live_threads demo_state)
   \<and> worker_step (demo_consumer 1 True True (failing_client client_error) default_methods)
       (demo_thread ''uuid-1'') demo_one_worker =
       demo_one_worker
         \<lparr>self := (self demo_one_worker)\<lparr>running := True\<rparr>,
          live_threads := [(demo_thread ''uuid-1'', AtLoopTest)]\<rparr>
   \<and> start (Suc 0) (demo_consumer 1 True True (failing_client client_error) default_methods)
       demo_one_worker =
       Some (Inl client_error,
             demo_one_worker
               \<lparr>self := (self demo_one_worker)\<lparr>running := True\<rparr>,
                trace := [ThreadStart (demo_thread ''uuid-1''), Receive demo_params]\<rparr>)
   \<and> run_schedule (demo_consumer 1 True True (failing_client client_error) default_methods)
       (replicate (Suc (Suc (Suc 0))) (demo_thread ''uuid-1'')) demo_one_worker =
       demo_one_worker
         \<lparr>self := (self demo_one_worker)\<lparr>running := True\<rparr>,
          live_threads := [],
          trace := [ThreadStart (demo_thread ''uuid-1''), Receive demo_params]\<rparr>
   \<and> \<not> threaded (demo_consumer 1 True False (failing_client client_error) default_methods)
   \<and> start_consumer (Suc 0) ''uuid-2''
       (demo_consumer 1 True False (failing_client client_error) default_methods)
       demo_one_worker =
       start (Suc 0) (demo_consumer 1 True False (failing_client client_error) default_methods)
         demo_one_worker
   \<and> start (Suc 0) (demo_consumer 1 True False (failing_client client_error) default_methods)
         demo_one_worker =
       Some (Inl client_error,
             demo_one_worker
               \<lparr>self := (self demo_one_worker)\<lparr>running := True\<rparr>,
                trace := [ThreadStart (demo_thread ''uuid-1''), Receive demo_params]\<rparr>)
   \<and> live_threads
        (demo_one_worker
           \<lparr>self := (self demo_one_worker)\<lparr>running := True\<rparr>,
            trace := [ThreadStart (demo_thread ''uuid-1''), Receive demo_params]\<rparr>) =
       live_threads demo_one_worker"
  using start_consumer_workers
          [where t = "demo_thread ''uuid-1''"
             and c = "demo_consumer 1 True True (failing_client client_error) default_methods"
             and uuid = "''uuid-1''" and s = demo_state and ?s1.0 = demo_one_worker
             and n = 0 and k = "Suc 0" and r = "Inl client_error"
             and ?s2.0 = "demo_one_worker
               \<lparr>self := (self demo_one_worker)\<lparr>running := True\<rparr>,
                trace := [ThreadStart (demo_thread ''uuid-1''), Receive demo_params]\<rparr>"]
        start_consumer_workers
          [where t = "demo_thread ''uuid-2''"
             and c = "demo_consumer 1 True False (failing_client client_error)
                        default_methods"
             and uuid = "''uuid-2''" and s = demo_one_worker
             and ?s1.0 = "demo_one_worker
               \<lparr>self := (self demo_one_worker)\<lparr>sqs_thread := Some (demo_thread ''uuid-2'')\<rparr>,
                live_threads := live_threads demo_one_worker @
                  [(demo_thread ''uuid-2'', AtStart)],
                trace := trace demo_one_worker @ [ThreadStart (demo_thread ''uuid-2'')]\<rparr>"
             and n = "Suc 0" and r' = "Inl client_error"
             and s' = "demo_one_worker
               \<lparr>self := (self demo_one_worker)\<lparr>running := True\<rparr>,
                trace := [ThreadStart (demo_thread ''uuid-1''), Receive demo_params]\<rparr>"]
  by (simp add: start_def dispatch_defs demo_defs py_defs default_methods_def)

end
